theory Spec2Isabelle
  imports Complex_Main "HOL-Library.Word"
begin

section \<open>The simulated radio: data model\<close>

text \<open>
  A shallow embedding of \<^verbatim>\<open>src/platform/portduino/SimRadio.cpp\<close>. The radio object is a
  record that every member function takes and returns. Calls into collaborators that live
  outside the file (the packet pool, the airtime log, the phone transport, the router,
  \<^verbatim>\<open>delay\<close>, \<^verbatim>\<open>LOG_WARN\<close>) are recorded, in call order, in the \<open>trace\<close> field of the
  radio. \<^verbatim>\<open>LOG_DEBUG\<close> and \<^verbatim>\<open>printPacket\<close> have no effect on the radio and are left out;
  a warning is recorded with its text, less the newline that ends it.
\<close>

type_synonym NodeNum = "32 word"
type_synonym PacketId = "32 word"
type_synonym byte = "8 word"

text \<open>
  A C \<^verbatim>\<open>float\<close>, as far as the file looks at one: it only compares \<^verbatim>\<open>rx_snr\<close> with zero and
  hands it on. \<open>Finite 0\<close> stands for both signed zeros, which compare equal to \<^verbatim>\<open>0\<close>; an
  infinity and a NaN do not.
\<close>

datatype float32 = Finite real | Infinity bool | NaN

definition float_eq_zero :: "float32 \<Rightarrow> bool" where
  "float_eq_zero x = (case x of Finite r \<Rightarrow> r = 0 | Infinity _ \<Rightarrow> False | NaN \<Rightarrow> False)"

text \<open>
  The port numbers of the generated protobuf header. The file names only
  \<^verbatim>\<open>PortNum_SIMULATOR_APP\<close>; \<^verbatim>\<open>Compressed_init_default\<close> carries the zero port
  \<^verbatim>\<open>PortNum_UNKNOWN_APP\<close>; \<open>PortNum_APP n\<close> is any other port.
\<close>

datatype PortNum = PortNum_UNKNOWN_APP | PortNum_SIMULATOR_APP | PortNum_APP nat

text \<open>
  Which member of the payload union a packet holds. The file names only
  \<^verbatim>\<open>MeshPacket_decoded_tag\<close>; the other two values are the encrypted tag and no tag set.
\<close>

datatype payload_variant = Variant_unset | MeshPacket_decoded_tag | MeshPacket_encrypted_tag

text \<open>
  A protobuf \<^verbatim>\<open>bytes\<close> field (a size and a fixed array) is the list of its first \<^verbatim>\<open>size\<close>
  bytes.
\<close>

record Data =
  portnum :: PortNum
  payload :: "byte list"

record MeshPacket =
  pkt_from :: NodeNum
  pkt_id :: PacketId
  hop_limit :: "8 word"
  rx_snr :: float32
  rx_rssi :: "32 word"
  which_payload_variant :: payload_variant
  decoded :: Data

record Compressed =
  Compressed_portnum :: PortNum
  Compressed_data :: "byte list"

definition Compressed_init_default :: Compressed where
  "Compressed_init_default = \<lparr>Compressed_portnum = PortNum_UNKNOWN_APP, Compressed_data = []\<rparr>"

text \<open>
  Modelled from the spec: the error codes are declared outside src. Section 6 of the spec
  lists \<^verbatim>\<open>ErrorCode{Ok, QueueFull, Unknown}\<close>; the file itself names \<^verbatim>\<open>ERRNO_OK\<close> and
  \<^verbatim>\<open>ERRNO_UNKNOWN\<close>.
\<close>

datatype ErrorCode = ERRNO_OK | QueueFull | ERRNO_UNKNOWN

text \<open>
  Modelled from the spec: the notification kinds are an enumeration of the class header,
  which is not in src. Section 4.6 of the spec gives a closed set of three kinds; they are
  numbered here in the order receive, transmit, delay after a zero that stands for no
  notification. The dispatcher takes a \<^verbatim>\<open>uint32_t\<close>, so every other word can reach it.
\<close>

definition ISR_NONE :: "32 word" where "ISR_NONE = 0"
definition ISR_RX :: "32 word" where "ISR_RX = 1"
definition ISR_TX :: "32 word" where "ISR_TX = 2"
definition TRANSMIT_DELAY_COMPLETED :: "32 word" where "TRANSMIT_DELAY_COMPLETED = 3"

text \<open>
  Modelled from the spec: the airtime log is not in src. Section 4.5 of the spec: one
  counter for the transmit side and one for the receive side; the file names them
  \<^verbatim>\<open>TX_LOG\<close> and \<^verbatim>\<open>RX_LOG\<close>.
\<close>

datatype LogDirection = TX_LOG | RX_LOG

text \<open>One call into a collaborator, with its arguments.\<close>

datatype event =
    PoolAllocCopy MeshPacket
  | PoolRelease MeshPacket
  | Delay "32 word"
  | LogAirtime LogDirection "32 word"
  | LogWarn string
  | SendToPhone MeshPacket
  | DeliverToReceiver MeshPacket

text \<open>A failed \<^verbatim>\<open>assert\<close> and a read through a null pointer end the program.\<close>

datatype fatal = AssertionFailed | NullDereference

text \<open>
  Modelled from the spec: the transmit queue class is not in src. Section 4.1 of the spec:
  a bounded FIFO whose capacity is fixed at construction; \<^verbatim>\<open>enqueue\<close> fails if full;
  \<^verbatim>\<open>dequeue\<close> takes the front; \<^verbatim>\<open>getFront\<close> does not remove; \<^verbatim>\<open>remove\<close> scans linearly
  for the key (origin, id), removes at most one match and keeps the order of the rest.
  An empty queue answers a null pointer, here \<open>None\<close>.
\<close>

record MeshPacketQueue =
  queue :: "MeshPacket list"
  maxLen :: nat

definition queue_empty :: "MeshPacketQueue \<Rightarrow> bool" where
  "queue_empty q = (queue q = [])"

definition queue_getFree :: "MeshPacketQueue \<Rightarrow> nat" where
  "queue_getFree q = maxLen q - length (queue q)"

definition queue_getMaxLen :: "MeshPacketQueue \<Rightarrow> nat" where
  "queue_getMaxLen q = maxLen q"

definition enqueue :: "MeshPacket \<Rightarrow> MeshPacketQueue \<Rightarrow> bool \<times> MeshPacketQueue" where
  "enqueue p q =
     (if maxLen q \<le> length (queue q) then (False, q)
      else (True, q\<lparr>queue := queue q @ [p]\<rparr>))"

definition getFront :: "MeshPacketQueue \<Rightarrow> MeshPacket option" where
  "getFront q = (case queue q of [] \<Rightarrow> None | p # _ \<Rightarrow> Some p)"

definition dequeue :: "MeshPacketQueue \<Rightarrow> MeshPacket option \<times> MeshPacketQueue" where
  "dequeue q = (case queue q of [] \<Rightarrow> (None, q) | p # ps \<Rightarrow> (Some p, q\<lparr>queue := ps\<rparr>))"

fun remove_first :: "NodeNum \<Rightarrow> PacketId \<Rightarrow> MeshPacket list \<Rightarrow> MeshPacket option \<times> MeshPacket list" where
  "remove_first n i [] = (None, [])"
| "remove_first n i (p # ps) =
     (if pkt_from p = n \<and> pkt_id p = i then (Some p, ps)
      else (case remove_first n i ps of (r, ps') \<Rightarrow> (r, p # ps')))"

definition queue_remove :: "NodeNum \<Rightarrow> PacketId \<Rightarrow> MeshPacketQueue \<Rightarrow> MeshPacket option \<times> MeshPacketQueue" where
  "queue_remove n i q = (case remove_first n i (queue q) of (r, ps) \<Rightarrow> (r, q\<lparr>queue := ps\<rparr>))"

text \<open>
  What the file uses and does not define, taken as parameters: the two delay
  computations of the radio base class, each reading the global random source (\<open>n\<close> is the
  number of draws made so far); the airtime of a packet and of a byte count; the router's
  \<^verbatim>\<open>perhapsDecode\<close>, which rewrites the packet in place; the protobuf encoder applied to an
  envelope, giving the bytes written (the encoder is taken to succeed);
  \<^verbatim>\<open>sizeof(c.data.bytes)\<close>, the envelope's capacity;
  \<^verbatim>\<open>sizeof(PacketHeader)\<close>; and the default argument of \<^verbatim>\<open>startTransmitTimer\<close>, which the
  header declares.
\<close>

record externals =
  getTxDelayMsec :: "nat \<Rightarrow> 32 word"
  getTxDelayMsecWeighted :: "float32 \<Rightarrow> nat \<Rightarrow> 32 word"
  getPacketTime :: "MeshPacket \<Rightarrow> 32 word"
  getPacketTimeOfLength :: "nat \<Rightarrow> 32 word"
  perhapsDecode :: "MeshPacket \<Rightarrow> MeshPacket"
  pb_encode_to_bytes :: "Compressed \<Rightarrow> byte list"
  sizeof_Compressed_data_bytes :: nat
  sizeof_PacketHeader :: nat
  startTransmitTimer_default :: bool

text \<open>
  The radio object. \<open>txQueue\<close>, \<open>sendingPacket\<close>, \<open>isReceiving\<close> and \<open>txGood\<close> are the
  members the file reads and writes; \<open>draws\<close> is the state of the random source, the
  number of delay computations made so far; \<open>trace\<close> is the list of calls made into
  collaborators, oldest first.
\<close>

record SimRadio =
  txQueue :: MeshPacketQueue
  sendingPacket :: "MeshPacket option"
  isReceiving :: bool
  txGood :: "32 word"
  draws :: nat
  trace :: "event list"

text \<open>
  How a call ends: it returns; or the program stops on a fatal error; or, for the
  functions that wait on the timer, the bound on timer expiries (see \<open>onNotify\<close> below)
  was reached: the timer has waited and \<^verbatim>\<open>TRANSMIT_DELAY_COMPLETED\<close> is still to be
  delivered to the radio given.
\<close>

datatype 'a outcome = Returned 'a | Fatal fatal | Pending SimRadio

section \<open>Collaborators\<close>

definition emit :: "event \<Rightarrow> SimRadio \<Rightarrow> SimRadio" where
  "emit e s = s\<lparr>trace := trace s @ [e]\<rparr>"

definition delay :: "32 word \<Rightarrow> SimRadio \<Rightarrow> SimRadio" where
  "delay ms s = emit (Delay ms) s"

definition LOG_WARN :: "string \<Rightarrow> SimRadio \<Rightarrow> SimRadio" where
  "LOG_WARN msg s = emit (LogWarn msg) s"

definition logAirtime :: "LogDirection \<Rightarrow> 32 word \<Rightarrow> SimRadio \<Rightarrow> SimRadio" where
  "logAirtime d ms s = emit (LogAirtime d ms) s"

definition sendToPhone :: "MeshPacket \<Rightarrow> SimRadio \<Rightarrow> SimRadio" where
  "sendToPhone p s = emit (SendToPhone p) s"

definition deliverToReceiver :: "MeshPacket \<Rightarrow> SimRadio \<Rightarrow> SimRadio" where
  "deliverToReceiver p s = emit (DeliverToReceiver p) s"

text \<open>
  Modelled from the spec: the packet pool is not in src. Section 4.2 of the spec:
  \<^verbatim>\<open>allocCopy\<close> deep-copies the packet into a fresh slot, \<^verbatim>\<open>release\<close> returns a slot. The
  pool is taken as never exhausted, and both calls are recorded.
\<close>

definition release :: "MeshPacket \<Rightarrow> SimRadio \<Rightarrow> SimRadio" where
  "release p s = emit (PoolRelease p) s"

definition allocCopy :: "MeshPacket \<Rightarrow> SimRadio \<Rightarrow> MeshPacket \<times> SimRadio" where
  "allocCopy p s = (p, emit (PoolAllocCopy p) s)"

text \<open>
  Modelled from the spec: \<^verbatim>\<open>beginSending\<close> belongs to the radio base class, not to src.
  Section 4.3 of the spec: the scheduler dequeues the head and goes to \<^verbatim>\<open>Sending\<close>;
  section 6: the call always succeeds. It makes the packet the one in flight. The byte
  count it answers is never read by \<^verbatim>\<open>startSend\<close> and is left out.
\<close>

definition beginSending :: "MeshPacket \<Rightarrow> SimRadio \<Rightarrow> SimRadio" where
  "beginSending p s = s\<lparr>sendingPacket := Some p\<rparr>"

text \<open>One call of a delay computation: the value, and one more draw made.\<close>

definition drawTxDelayMsec :: "externals \<Rightarrow> SimRadio \<Rightarrow> 32 word \<times> SimRadio" where
  "drawTxDelayMsec E s = (getTxDelayMsec E (draws s), s\<lparr>draws := Suc (draws s)\<rparr>)"

definition drawTxDelayMsecWeighted :: "externals \<Rightarrow> float32 \<Rightarrow> SimRadio \<Rightarrow> 32 word \<times> SimRadio" where
  "drawTxDelayMsecWeighted E snr s =
     (getTxDelayMsecWeighted E snr (draws s), s\<lparr>draws := Suc (draws s)\<rparr>)"

section \<open>The member functions of the file\<close>

definition completeSending :: "SimRadio \<Rightarrow> SimRadio" where
  "completeSending s =
     (let p = sendingPacket s;
          s1 = s\<lparr>sendingPacket := None\<rparr>
      in case p of
           Some pk \<Rightarrow> release pk (s1\<lparr>txGood := txGood s1 + 1\<rparr>)
         | None \<Rightarrow> s1)"

definition handleTransmitInterrupt :: "SimRadio \<Rightarrow> SimRadio" where
  "handleTransmitInterrupt s = (if sendingPacket s \<noteq> None then completeSending s else s)"

definition isActivelyReceiving :: bool where
  "isActivelyReceiving = False"

definition isChannelActive :: bool where
  "isChannelActive = False"

definition canSendImmediately :: "SimRadio \<Rightarrow> bool \<times> SimRadio" where
  "canSendImmediately s =
     (let busyTx = (sendingPacket s \<noteq> None);
          busyRx = (isReceiving s \<and> isActivelyReceiving)
      in if busyTx \<or> busyRx then
           (let s1 = (if busyTx then LOG_WARN ''Can not send yet, busyTx'' s else s);
                s2 = (if busyRx then LOG_WARN ''Can not send yet, busyRx'' s1 else s1)
            in (False, s2))
         else (True, s))"

definition startSend :: "externals \<Rightarrow> MeshPacket \<Rightarrow> SimRadio \<Rightarrow> SimRadio" where
  "startSend E txp s =
     (let s1 = beginSending txp s;
          (p0, s2) = allocCopy txp s1;
          p = perhapsDecode E p0;
          c0 = Compressed_init_default\<lparr>Compressed_portnum := portnum (decoded p)\<rparr>;
          (c, s3) =
            (if length (payload (decoded p)) \<le> sizeof_Compressed_data_bytes E
             then (c0\<lparr>Compressed_data := payload (decoded p)\<rparr>, s2)
             else (c0, LOG_WARN ''Payload size is larger than compressed message allows! Sending empty payload.'' s2));
          p1 = p\<lparr>decoded := (decoded p)\<lparr>payload := pb_encode_to_bytes E c\<rparr>\<rparr>;
          p2 = p1\<lparr>decoded := (decoded p1)\<lparr>portnum := PortNum_SIMULATOR_APP\<rparr>\<rparr>
      in sendToPhone p2 s3)"

text \<open>
  \<^verbatim>\<open>startTransmitTimer\<close> and \<^verbatim>\<open>startTransmitTimerSNR\<close> wait and then call the dispatcher
  themselves, and the dispatcher calls them back through \<^verbatim>\<open>setTransmitDelay\<close>: the four
  functions are mutually recursive and the recursion need not end. The first argument
  bounds the number of calls of the dispatcher that the timers may make. A timer that
  has waited and may not call the dispatcher any more ends the run with \<open>Pending\<close> and
  the radio as it is then, so that what was done up to that point can be read.
\<close>

fun onNotify :: "nat \<Rightarrow> externals \<Rightarrow> 32 word \<Rightarrow> SimRadio \<Rightarrow> SimRadio outcome"
  and setTransmitDelay :: "nat \<Rightarrow> externals \<Rightarrow> SimRadio \<Rightarrow> SimRadio outcome"
  and startTransmitTimer :: "nat \<Rightarrow> externals \<Rightarrow> bool \<Rightarrow> SimRadio \<Rightarrow> SimRadio outcome"
  and startTransmitTimerSNR :: "nat \<Rightarrow> externals \<Rightarrow> float32 \<Rightarrow> SimRadio \<Rightarrow> SimRadio outcome"
where
  "onNotify k E notification s =
     (if notification = ISR_TX then
        startTransmitTimer k E (startTransmitTimer_default E) (handleTransmitInterrupt s)
      else if notification = ISR_RX then Returned s
      else if notification = TRANSMIT_DELAY_COMPLETED then
        (if \<not> queue_empty (txQueue s) then
           (case canSendImmediately s of (can, s1) \<Rightarrow>
              if \<not> can then setTransmitDelay k E s1
              else if isChannelActive then setTransmitDelay k E s1
              else
                (case dequeue (txQueue s1) of
                   (None, q) \<Rightarrow> Fatal AssertionFailed
                 | (Some txp, q) \<Rightarrow>
                     (let s2 = startSend E txp (s1\<lparr>txQueue := q\<rparr>);
                          xmitMsec = getPacketTime E txp;
                          s3 = logAirtime TX_LOG xmitMsec s2;
                          s4 = delay xmitMsec s3
                      in Returned (completeSending s4))))
         else Returned s)
      else Fatal AssertionFailed)"
| "setTransmitDelay k E s =
     (case getFront (txQueue s) of
        None \<Rightarrow> Fatal NullDereference
      | Some p \<Rightarrow>
          if float_eq_zero (rx_snr p) \<and> rx_rssi p = 0 then startTransmitTimer k E True s
          else startTransmitTimerSNR k E (rx_snr p) s)"
| "startTransmitTimer 0 E withDelay s =
     (if \<not> queue_empty (txQueue s) then
        (case (if \<not> withDelay then (1, s) else drawTxDelayMsec E s) of (delayMsec, s1) \<Rightarrow>
           Pending (delay delayMsec s1))
      else Returned s)"
| "startTransmitTimer (Suc k) E withDelay s =
     (if \<not> queue_empty (txQueue s) then
        (case (if \<not> withDelay then (1, s) else drawTxDelayMsec E s) of (delayMsec, s1) \<Rightarrow>
           onNotify k E TRANSMIT_DELAY_COMPLETED (delay delayMsec s1))
      else Returned s)"
| "startTransmitTimerSNR 0 E snr s =
     (if \<not> queue_empty (txQueue s) then
        (case drawTxDelayMsecWeighted E snr s of (delayMsec, s1) \<Rightarrow>
           Pending (delay delayMsec s1))
      else Returned s)"
| "startTransmitTimerSNR (Suc k) E snr s =
     (if \<not> queue_empty (txQueue s) then
        (case drawTxDelayMsecWeighted E snr s of (delayMsec, s1) \<Rightarrow>
           onNotify k E TRANSMIT_DELAY_COMPLETED (delay delayMsec s1))
      else Returned s)"

definition send :: "nat \<Rightarrow> externals \<Rightarrow> MeshPacket \<Rightarrow> SimRadio \<Rightarrow> (ErrorCode \<times> SimRadio) outcome" where
  "send k E p s =
     (case enqueue p (txQueue s) of (ok, q) \<Rightarrow>
        (let s1 = s\<lparr>txQueue := q\<rparr>;
             res = (if ok then ERRNO_OK else ERRNO_UNKNOWN)
         in if res \<noteq> ERRNO_OK then Returned (res, release p s1)
            else (case setTransmitDelay k E s1 of
                    Returned s2 \<Rightarrow> Returned (res, s2)
                  | Fatal e \<Rightarrow> Fatal e
                  | Pending s2 \<Rightarrow> Pending s2)))"

definition cancelSending :: "NodeNum \<Rightarrow> PacketId \<Rightarrow> SimRadio \<Rightarrow> bool \<times> SimRadio" where
  "cancelSending n i s =
     (case queue_remove n i (txQueue s) of (p, q) \<Rightarrow>
        (let s1 = s\<lparr>txQueue := q\<rparr>;
             s2 = (case p of Some pk \<Rightarrow> release pk s1 | None \<Rightarrow> s1);
             result = (p \<noteq> None)
         in (result, s2)))"

record QueueStatus =
  res :: "8 word"
  mesh_packet_id :: "32 word"
  free :: nat
  maxlen :: nat

definition getQueueStatus :: "SimRadio \<Rightarrow> QueueStatus" where
  "getQueueStatus s =
     \<lparr>res = 0, mesh_packet_id = 0,
      free = queue_getFree (txQueue s), maxlen = queue_getMaxLen (txQueue s)\<rparr>"

definition getPacketLength :: "externals \<Rightarrow> MeshPacket \<Rightarrow> nat" where
  "getPacketLength E mp = length (payload (decoded mp)) + sizeof_PacketHeader E"

definition handleReceiveInterrupt :: "externals \<Rightarrow> MeshPacket \<Rightarrow> SimRadio \<Rightarrow> fatal + SimRadio" where
  "handleReceiveInterrupt E p s =
     (if \<not> isReceiving s then Inl AssertionFailed
      else
        (let s1 = s\<lparr>isReceiving := False\<rparr>;
             len = getPacketLength E p;
             xmitMsec = getPacketTimeOfLength E len;
             (mp0, s2) = allocCopy p s1;
             mp = mp0\<lparr>which_payload_variant := MeshPacket_decoded_tag\<rparr>;
             s3 = logAirtime RX_LOG xmitMsec s2
         in Inr (deliverToReceiver mp s3)))"

definition startReceive :: "externals \<Rightarrow> MeshPacket \<Rightarrow> SimRadio \<Rightarrow> fatal + SimRadio" where
  "startReceive E p s =
     (let s1 = s\<lparr>isReceiving := True\<rparr>;
          len = getPacketLength E p;
          xmitMsec = getPacketTimeOfLength E len
      in handleReceiveInterrupt E p (delay xmitMsec s1))"

section \<open>Reading a trace\<close>

text \<open>The packets given back to the pool, in call order.\<close>

fun released :: "event list \<Rightarrow> MeshPacket list" where
  "released [] = []"
| "released (PoolRelease p # es) = p # released es"
| "released (e # es) = released es"

text \<open>The calls of \<^verbatim>\<open>logAirtime\<close>, in call order.\<close>

fun airtime_calls :: "event list \<Rightarrow> (LogDirection \<times> 32 word) list" where
  "airtime_calls [] = []"
| "airtime_calls (LogAirtime d ms # es) = (d, ms) # airtime_calls es"
| "airtime_calls (e # es) = airtime_calls es"

text \<open>The packets handed to the phone transport, in call order.\<close>

fun phone_packets :: "event list \<Rightarrow> MeshPacket list" where
  "phone_packets [] = []"
| "phone_packets (SendToPhone p # es) = p # phone_packets es"
| "phone_packets (e # es) = phone_packets es"

section \<open>Concrete inputs\<close>

text \<open>
  Parameters with the sizes of the generated headers (237 bytes of envelope data, a
  header of 16 bytes), fixed delays and an encoder that writes the length and the bytes.
\<close>

definition example_externals :: externals where
  "example_externals =
     \<lparr>getTxDelayMsec = (\<lambda>n. 100 + of_nat n),
      getTxDelayMsecWeighted = (\<lambda>snr n. 50),
      getPacketTime = (\<lambda>p. 20),
      getPacketTimeOfLength = (\<lambda>n. of_nat n),
      perhapsDecode = (\<lambda>p. p),
      pb_encode_to_bytes = (\<lambda>c. of_nat (length (Compressed_data c)) # Compressed_data c),
      sizeof_Compressed_data_bytes = 237,
      sizeof_PacketHeader = 16,
      startTransmitTimer_default = True\<rparr>"

definition example_packet :: "PacketId \<Rightarrow> float32 \<Rightarrow> 32 word \<Rightarrow> byte list \<Rightarrow> MeshPacket" where
  "example_packet i snr rssi bs =
     \<lparr>pkt_from = 7, pkt_id = i, hop_limit = 3, rx_snr = snr, rx_rssi = rssi,
      which_payload_variant = MeshPacket_decoded_tag,
      decoded = \<lparr>portnum = PortNum_APP 1, payload = bs\<rparr>\<rparr>"

text \<open>A packet made on this node, and one relayed after a reception.\<close>

definition local_packet :: "PacketId \<Rightarrow> MeshPacket" where
  "local_packet i = example_packet i (Finite 0) 0 [1, 2, 3]"

definition relayed_packet :: "PacketId \<Rightarrow> MeshPacket" where
  "relayed_packet i = example_packet i (Finite 10) 200 [4, 5]"

definition radio_with :: "MeshPacket list \<Rightarrow> MeshPacket option \<Rightarrow> bool \<Rightarrow> SimRadio" where
  "radio_with ps sending receiving =
     \<lparr>txQueue = \<lparr>queue = ps, maxLen = 4\<rparr>, sendingPacket = sending, isReceiving = receiving,
      txGood = 0, draws = 0, trace = []\<rparr>"

definition idle_radio :: SimRadio where
  "idle_radio = radio_with [] None False"

definition full_radio :: SimRadio where
  "full_radio = radio_with [local_packet 1, local_packet 2, local_packet 3, local_packet 4] None False"

text \<open>A packet whose payload is one byte longer than the envelope holds.\<close>

definition oversize_packet :: MeshPacket where
  "oversize_packet = example_packet 9 (Finite 0) 0 (replicate 238 0)"

text \<open>A radio with one packet in flight and a relayed packet waiting.\<close>

definition busy_radio :: SimRadio where
  "busy_radio = radio_with [relayed_packet 2] (Some (local_packet 1)) False"

text \<open>A radio whose receiving flag is set, with one packet waiting and none in flight.\<close>

definition receiving_radio :: SimRadio where
  "receiving_radio = radio_with [local_packet 1] None True"

section \<open>Unfolding lemmas\<close>

declare onNotify.simps [simp del] setTransmitDelay.simps [simp del]
  startTransmitTimer.simps [simp del] startTransmitTimerSNR.simps [simp del]

lemmas collab_defs = emit_def delay_def LOG_WARN_def logAirtime_def sendToPhone_def
  deliverToReceiver_def release_def allocCopy_def beginSending_def
  drawTxDelayMsec_def drawTxDelayMsecWeighted_def


lemmas example_defs = example_externals_def example_packet_def local_packet_def
  relayed_packet_def radio_with_def idle_radio_def full_radio_def oversize_packet_def
  busy_radio_def receiving_radio_def

lemmas notification_defs = ISR_NONE_def ISR_RX_def ISR_TX_def TRANSMIT_DELAY_COMPLETED_def

lemma released_append: "released (xs @ ys) = released xs @ released ys"
  by (induction xs rule: released.induct) simp_all

lemma airtime_calls_append: "airtime_calls (xs @ ys) = airtime_calls xs @ airtime_calls ys"
  by (induction xs rule: airtime_calls.induct) simp_all

lemma phone_packets_append: "phone_packets (xs @ ys) = phone_packets xs @ phone_packets ys"
  by (induction xs rule: phone_packets.induct) simp_all

text \<open>What \<^verbatim>\<open>startSend\<close> does, in one equation.\<close>

lemma startSend_unfold:
  "startSend E txp s =
     (let p = perhapsDecode E txp;
          fits = (length (payload (decoded p)) \<le> sizeof_Compressed_data_bytes E);
          c = \<lparr>Compressed_portnum = portnum (decoded p),
               Compressed_data = (if fits then payload (decoded p) else [])\<rparr>
      in s\<lparr>sendingPacket := Some txp,
           trace := trace s @ [PoolAllocCopy txp] @
             (if fits then []
              else [LogWarn ''Payload size is larger than compressed message allows! Sending empty payload.'']) @
             [SendToPhone
                (p\<lparr>decoded := \<lparr>portnum = PortNum_SIMULATOR_APP, payload = pb_encode_to_bytes E c\<rparr>\<rparr>)]\<rparr>)"
  by (simp add: startSend_def collab_defs Compressed_init_default_def Let_def)

section \<open>The dispatcher, one notification at a time\<close>

lemma canSendImmediately_eq:
  "canSendImmediately s =
     (if sendingPacket s \<noteq> None then (False, LOG_WARN ''Can not send yet, busyTx'' s)
      else (True, s))"
  by (simp add: canSendImmediately_def isActivelyReceiving_def Let_def)

lemma getFront_Some_iff: "getFront q = Some p \<longleftrightarrow> (\<exists>ps. queue q = p # ps)"
  by (simp add: getFront_def split: list.splits)

text \<open>With nothing in flight the head of the queue is sent, whatever the receiving flag says.\<close>

lemma delay_expired_when_free:
  assumes "queue (txQueue s) = p # ps" and "sendingPacket s = None"
  shows "onNotify k E TRANSMIT_DELAY_COMPLETED s =
           Returned (completeSending
             (delay (getPacketTime E p)
               (logAirtime TX_LOG (getPacketTime E p)
                 (startSend E p (s\<lparr>txQueue := (txQueue s)\<lparr>queue := ps\<rparr>\<rparr>)))))"
  using assms
  by (subst onNotify.simps)
    (simp add: notification_defs canSendImmediately_eq isChannelActive_def queue_empty_def
      dequeue_def Let_def)

lemma transmitted_state:
  fixes E p s0
  defines "s' \<equiv> completeSending (delay (getPacketTime E p)
               (logAirtime TX_LOG (getPacketTime E p) (startSend E p s0)))"
  shows "txQueue s' = txQueue s0" and "sendingPacket s' = None"
    and "isReceiving s' = isReceiving s0" and "txGood s' = txGood s0 + 1"
    and "draws s' = draws s0"
    and "airtime_calls (trace s') = airtime_calls (trace s0) @ [(TX_LOG, getPacketTime E p)]"
    and "released (trace s') = released (trace s0) @ [p]"
    and "phone_packets (trace s') = phone_packets (trace (startSend E p s0))"
  unfolding s'_def
  by (simp_all add: completeSending_def startSend_unfold collab_defs Let_def
      airtime_calls_append released_append phone_packets_append)

lemma delay_expired_when_busy:
  assumes "queue (txQueue s) = p # ps" and "sendingPacket s \<noteq> None"
  shows "onNotify k E TRANSMIT_DELAY_COMPLETED s =
           setTransmitDelay k E (s\<lparr>trace := trace s @ [LogWarn ''Can not send yet, busyTx'']\<rparr>)"
  using assms
  by (subst onNotify.simps)
    (simp add: notification_defs canSendImmediately_eq queue_empty_def LOG_WARN_def emit_def)

text \<open>What \<^verbatim>\<open>setTransmitDelay\<close> has done when its timer has waited.\<close>

lemma setTransmitDelay_Suc:
  assumes "queue (txQueue s) = p # ps"
  shows "setTransmitDelay (Suc k) E s =
     onNotify k E TRANSMIT_DELAY_COMPLETED
       (s\<lparr>draws := Suc (draws s),
          trace := trace s @
            [Delay (if float_eq_zero (rx_snr p) \<and> rx_rssi p = 0 then getTxDelayMsec E (draws s)
                    else getTxDelayMsecWeighted E (rx_snr p) (draws s))]\<rparr>)"
  using assms
  by (simp add: setTransmitDelay.simps startTransmitTimer.simps startTransmitTimerSNR.simps
      getFront_def queue_empty_def collab_defs)

lemma setTransmitDelay_0:
  assumes "queue (txQueue s) = p # ps"
  shows "setTransmitDelay 0 E s =
     Pending
       (s\<lparr>draws := Suc (draws s),
          trace := trace s @
            [Delay (if float_eq_zero (rx_snr p) \<and> rx_rssi p = 0 then getTxDelayMsec E (draws s)
                    else getTxDelayMsecWeighted E (rx_snr p) (draws s))]\<rparr>)"
  using assms
  by (simp add: setTransmitDelay.simps startTransmitTimer.simps startTransmitTimerSNR.simps
      getFront_def queue_empty_def collab_defs)

text \<open>What \<^verbatim>\<open>startTransmitTimer\<close> has done when it has waited.\<close>

lemma startTransmitTimer_0:
  assumes "queue (txQueue s) \<noteq> []"
  shows "startTransmitTimer 0 E withDelay s =
     Pending
       (if withDelay
        then s\<lparr>draws := Suc (draws s), trace := trace s @ [Delay (getTxDelayMsec E (draws s))]\<rparr>
        else s\<lparr>trace := trace s @ [Delay 1]\<rparr>)"
  using assms by (simp add: startTransmitTimer.simps queue_empty_def collab_defs)

lemma startTransmitTimer_Suc:
  assumes "queue (txQueue s) \<noteq> []"
  shows "startTransmitTimer (Suc k) E withDelay s =
     onNotify k E TRANSMIT_DELAY_COMPLETED
       (if withDelay
        then s\<lparr>draws := Suc (draws s), trace := trace s @ [Delay (getTxDelayMsec E (draws s))]\<rparr>
        else s\<lparr>trace := trace s @ [Delay 1]\<rparr>)"
  using assms by (simp add: startTransmitTimer.simps queue_empty_def collab_defs)

text \<open>
  Nothing inside the loop of timer and dispatcher clears the packet in flight. Once the
  dispatcher finds one, with a packet waiting, every round logs the warning and waits a
  delay computed from the head of the queue, and no number of rounds lets it return.
\<close>

lemma busy_radio_rearms:
  assumes "queue (txQueue s) = p # ps" and "sendingPacket s \<noteq> None"
  shows "onNotify k E TRANSMIT_DELAY_COMPLETED s =
     Pending
       (s\<lparr>draws := draws s + Suc k,
          trace := trace s @
            concat (map (\<lambda>n. [LogWarn ''Can not send yet, busyTx'',
                              Delay (if float_eq_zero (rx_snr p) \<and> rx_rssi p = 0
                                     then getTxDelayMsec E n
                                     else getTxDelayMsecWeighted E (rx_snr p) n)])
                        [draws s..<draws s + Suc k])\<rparr>)"
  using assms
proof (induction k arbitrary: s)
  case 0
  then show ?case
    by (simp add: delay_expired_when_busy [of s p ps] setTransmitDelay_0 [of _ p ps])
next
  case (Suc k)
  let ?s1 = "s\<lparr>draws := Suc (draws s),
               trace := trace s @
                 [LogWarn ''Can not send yet, busyTx'',
                  Delay (if float_eq_zero (rx_snr p) \<and> rx_rssi p = 0
                         then getTxDelayMsec E (draws s)
                         else getTxDelayMsecWeighted E (rx_snr p) (draws s))]\<rparr>"
  have step: "onNotify (Suc k) E TRANSMIT_DELAY_COMPLETED s =
      onNotify k E TRANSMIT_DELAY_COMPLETED ?s1"
    using Suc.prems
    by (simp add: delay_expired_when_busy [of s p ps] setTransmitDelay_Suc [of _ p ps])
  have again: "queue (txQueue ?s1) = p # ps" "sendingPacket ?s1 \<noteq> None"
    using Suc.prems by simp_all
  have range: "[draws s..<draws s + Suc (Suc k)] = draws s # [Suc (draws s)..<Suc (draws s) + Suc k]"
    by (simp add: upt_conv_Cons)
  show ?case
    unfolding step Suc.IH [OF again] range by simp
qed

lemma rearm_events_send_nothing:
  "phone_packets (concat (map (\<lambda>n. [LogWarn w, Delay (d n)]) ns)) = []"
  "airtime_calls (concat (map (\<lambda>n. [LogWarn w, Delay (d n)]) ns)) = []"
  "released (concat (map (\<lambda>n. [LogWarn w, Delay (d n)]) ns)) = []"
  by (induction ns) simp_all

section \<open>Removal from the queue\<close>

lemma remove_first_None:
  "remove_first n i ps = (None, ps') \<Longrightarrow>
   ps' = ps \<and> (\<forall>p\<in>set ps. \<not> (pkt_from p = n \<and> pkt_id p = i))"
  by (induction ps arbitrary: ps') (auto split: if_splits prod.splits)

lemma remove_first_Some:
  "remove_first n i ps = (Some p, ps') \<Longrightarrow>
   \<exists>xs ys. ps = xs @ p # ys \<and> ps' = xs @ ys \<and> pkt_from p = n \<and> pkt_id p = i \<and>
           (\<forall>x\<in>set xs. \<not> (pkt_from x = n \<and> pkt_id x = i))"
proof (induction ps arbitrary: ps')
  case Nil
  then show ?case by simp
next
  case (Cons a ps)
  show ?case
  proof (cases "pkt_from a = n \<and> pkt_id a = i")
    case True
    with Cons.prems have "p = a" "ps' = ps" by auto
    with True show ?thesis by (intro exI [of _ "[]"] exI [of _ ps]) simp
  next
    case False
    with Cons.prems obtain qs where r: "remove_first n i ps = (Some p, qs)" and ps': "ps' = a # qs"
      by (auto split: prod.splits)
    from Cons.IH [OF r] obtain xs ys where
      "ps = xs @ p # ys" "qs = xs @ ys" "pkt_from p = n" "pkt_id p = i"
      "\<forall>x\<in>set xs. \<not> (pkt_from x = n \<and> pkt_id x = i)"
      by blast
    with False ps' show ?thesis
      by (intro exI [of _ "a # xs"] exI [of _ ys]) simp
  qed
qed

section \<open>Submitting a packet\<close>

text \<open>
  Claim C1 as stated fails on the end-to-end scenario of the spec: with four packets
  waiting in a queue of capacity four, the fifth \<^verbatim>\<open>send\<close> answers
  \<^verbatim>\<open>ERRNO_UNKNOWN\<close>, which is not \<^verbatim>\<open>QueueFull\<close>.
\<close>

theorem fifth_send_is_not_QueueFull:
  "length (queue (txQueue full_radio)) = 4 \<and> maxLen (txQueue full_radio) = 4 \<and>
   send 0 example_externals (local_packet 5) full_radio =
     Returned (ERRNO_UNKNOWN, full_radio\<lparr>trace := [PoolRelease (local_packet 5)]\<rparr>) \<and>
   ERRNO_UNKNOWN \<noteq> QueueFull"
  by (simp add: send_def enqueue_def release_def emit_def example_defs)

text \<open>
  Claim C1, as the code has it: every \<^verbatim>\<open>send\<close> made while the transmit queue is full
  returns the error code \<^verbatim>\<open>ERRNO_UNKNOWN\<close>, with the packet given back to the pool and
  nothing else changed. The file maps a refused \<^verbatim>\<open>enqueue\<close> to \<^verbatim>\<open>ERRNO_UNKNOWN\<close>.
\<close>

theorem send_full_queue_returns_unknown:
  "maxLen (txQueue s) \<le> length (queue (txQueue s)) \<Longrightarrow>
   send k E p s = Returned (ERRNO_UNKNOWN, release p s)"
  by (simp add: send_def enqueue_def)

theorem send_full_queue_returns_unknown_witness:
  "maxLen (txQueue full_radio) \<le> length (queue (txQueue full_radio)) \<and>
   send 0 example_externals (local_packet 5) full_radio =
     Returned (ERRNO_UNKNOWN, release (local_packet 5) full_radio)"
  using send_full_queue_returns_unknown [of full_radio 0 example_externals "local_packet 5"]
  by (simp add: example_defs)

text \<open>
  Claim C6: whenever \<^verbatim>\<open>send\<close> returns an error code other than \<^verbatim>\<open>ERRNO_OK\<close>, the radio it
  leaves is the one it found with the submitted packet released to the pool: the release
  is the one thing that happened, and the queue is as it was.
\<close>

theorem send_error_releases_packet:
  "send k E p s = Returned (rc, s') \<Longrightarrow> rc \<noteq> ERRNO_OK \<Longrightarrow>
   s' = release p s \<and> txQueue s' = txQueue s \<and> released (trace s') = released (trace s) @ [p]"
  by (auto simp: send_def enqueue_def release_def emit_def released_append Let_def
      split: if_splits outcome.splits)

theorem send_error_releases_packet_witness:
  "send 0 example_externals (local_packet 5) full_radio =
     Returned (ERRNO_UNKNOWN, release (local_packet 5) full_radio) \<and>
   ERRNO_UNKNOWN \<noteq> ERRNO_OK \<and>
   txQueue (release (local_packet 5) full_radio) = txQueue full_radio \<and>
   released (trace (release (local_packet 5) full_radio)) =
     released (trace full_radio) @ [local_packet 5]"
proof -
  have returned: "send 0 example_externals (local_packet 5) full_radio =
      Returned (ERRNO_UNKNOWN, release (local_packet 5) full_radio)"
    by (simp add: send_def enqueue_def example_defs)
  have code: "ERRNO_UNKNOWN \<noteq> ERRNO_OK" by simp
  show ?thesis
    using returned code send_error_releases_packet [OF returned code] by simp
qed

section \<open>Choosing the delay\<close>




section \<open>Framing\<close>

text \<open>
  Claim C9: \<^verbatim>\<open>startSend\<close> makes the packet the one in flight, copies it, decodes the copy,
  and hands exactly one packet to the phone transport, as its last step: the decoded copy
  with its port overwritten by \<^verbatim>\<open>PortNum_SIMULATOR_APP\<close> and its payload replaced by the
  encoded envelope, and the envelope's own port is the port the decoded copy had.
\<close>

theorem startSend_port_tags:
  "startSend E txp s =
     (let p = perhapsDecode E txp;
          fits = (length (payload (decoded p)) \<le> sizeof_Compressed_data_bytes E);
          envelope = \<lparr>Compressed_portnum = portnum (decoded p),
                      Compressed_data = (if fits then payload (decoded p) else [])\<rparr>;
          framed = p\<lparr>decoded := \<lparr>portnum = PortNum_SIMULATOR_APP,
                                  payload = pb_encode_to_bytes E envelope\<rparr>\<rparr>
      in sendToPhone framed
           (s\<lparr>sendingPacket := Some txp,
              trace := trace s @ [PoolAllocCopy txp] @
                (if fits then []
                 else [LogWarn ''Payload size is larger than compressed message allows! Sending empty payload.''])\<rparr>)) \<and>
   phone_packets (trace (startSend E txp s)) =
     phone_packets (trace s) @
       [(perhapsDecode E txp)\<lparr>decoded :=
          \<lparr>portnum = PortNum_SIMULATOR_APP,
           payload = pb_encode_to_bytes E
             \<lparr>Compressed_portnum = portnum (decoded (perhapsDecode E txp)),
              Compressed_data =
                (if length (payload (decoded (perhapsDecode E txp))) \<le> sizeof_Compressed_data_bytes E
                 then payload (decoded (perhapsDecode E txp)) else [])\<rparr>\<rparr>\<rparr>]"
  by (simp add: startSend_unfold Let_def sendToPhone_def emit_def phone_packets_append)

theorem startSend_port_tags_witness:
  "phone_packets (trace (startSend example_externals (local_packet 1) idle_radio)) =
     [(local_packet 1)\<lparr>decoded := \<lparr>portnum = PortNum_SIMULATOR_APP, payload = [3, 1, 2, 3]\<rparr>\<rparr>] \<and>
   portnum (decoded (local_packet 1)) = PortNum_APP 1"
  using startSend_port_tags [of example_externals "local_packet 1" idle_radio, THEN conjunct2]
  by (simp add: example_defs)

text \<open>
  Claim C2: when the decoded payload of the copy is longer than the envelope's capacity,
  \<^verbatim>\<open>startSend\<close> logs one warning and hands the phone transport a packet whose envelope has
  the original port and no payload bytes at all, not a prefix of the payload; and a
  \<^verbatim>\<open>TRANSMIT_DELAY_COMPLETED\<close> that finds such a packet at the head of the queue, with
  nothing in flight, returns normally, having sent that packet and logged its airtime.
\<close>

theorem startSend_oversize_payload_sends_empty:
  assumes "sizeof_Compressed_data_bytes E < length (payload (decoded (perhapsDecode E txp)))"
  shows "startSend E txp s =
     s\<lparr>sendingPacket := Some txp,
       trace := trace s @
         [PoolAllocCopy txp,
          LogWarn ''Payload size is larger than compressed message allows! Sending empty payload.'',
          SendToPhone ((perhapsDecode E txp)\<lparr>decoded :=
            \<lparr>portnum = PortNum_SIMULATOR_APP,
             payload = pb_encode_to_bytes E
               \<lparr>Compressed_portnum = portnum (decoded (perhapsDecode E txp)),
                Compressed_data = []\<rparr>\<rparr>\<rparr>)]\<rparr> \<and>
     (queue (txQueue s) = txp # ps \<and> sendingPacket s = None \<longrightarrow>
        (\<exists>s'. onNotify k E TRANSMIT_DELAY_COMPLETED s = Returned s' \<and>
              phone_packets (trace s') = phone_packets (trace s) @
                [(perhapsDecode E txp)\<lparr>decoded :=
                   \<lparr>portnum = PortNum_SIMULATOR_APP,
                    payload = pb_encode_to_bytes E
                      \<lparr>Compressed_portnum = portnum (decoded (perhapsDecode E txp)),
                       Compressed_data = []\<rparr>\<rparr>\<rparr>] \<and>
              airtime_calls (trace s') =
                airtime_calls (trace s) @ [(TX_LOG, getPacketTime E txp)]))"
proof -
  have framing: "startSend E txp s0 =
     s0\<lparr>sendingPacket := Some txp,
       trace := trace s0 @
         [PoolAllocCopy txp,
          LogWarn ''Payload size is larger than compressed message allows! Sending empty payload.'',
          SendToPhone ((perhapsDecode E txp)\<lparr>decoded :=
            \<lparr>portnum = PortNum_SIMULATOR_APP,
             payload = pb_encode_to_bytes E
               \<lparr>Compressed_portnum = portnum (decoded (perhapsDecode E txp)),
                Compressed_data = []\<rparr>\<rparr>\<rparr>)]\<rparr>" for s0
    using assms by (simp add: startSend_unfold Let_def)
  have "\<exists>s'. onNotify k E TRANSMIT_DELAY_COMPLETED s = Returned s' \<and>
              phone_packets (trace s') = phone_packets (trace s) @
                [(perhapsDecode E txp)\<lparr>decoded :=
                   \<lparr>portnum = PortNum_SIMULATOR_APP,
                    payload = pb_encode_to_bytes E
                      \<lparr>Compressed_portnum = portnum (decoded (perhapsDecode E txp)),
                       Compressed_data = []\<rparr>\<rparr>\<rparr>] \<and>
              airtime_calls (trace s') =
                airtime_calls (trace s) @ [(TX_LOG, getPacketTime E txp)]"
    if q: "queue (txQueue s) = txp # ps" and free: "sendingPacket s = None"
  proof -
    let ?s0 = "s\<lparr>txQueue := (txQueue s)\<lparr>queue := ps\<rparr>\<rparr>"
    have "phone_packets (trace (startSend E txp ?s0)) = phone_packets (trace s) @
                [(perhapsDecode E txp)\<lparr>decoded :=
                   \<lparr>portnum = PortNum_SIMULATOR_APP,
                    payload = pb_encode_to_bytes E
                      \<lparr>Compressed_portnum = portnum (decoded (perhapsDecode E txp)),
                       Compressed_data = []\<rparr>\<rparr>\<rparr>]"
      by (simp add: framing phone_packets_append)
    then show ?thesis
      by (simp add: delay_expired_when_free [OF q free] transmitted_state)
  qed
  with framing show ?thesis by blast
qed

theorem startSend_oversize_payload_sends_empty_witness:
  "sizeof_Compressed_data_bytes example_externals
     < length (payload (decoded (perhapsDecode example_externals oversize_packet))) \<and>
   startSend example_externals oversize_packet idle_radio =
     idle_radio\<lparr>sendingPacket := Some oversize_packet,
       trace :=
         [PoolAllocCopy oversize_packet,
          LogWarn ''Payload size is larger than compressed message allows! Sending empty payload.'',
          SendToPhone (oversize_packet\<lparr>decoded :=
            \<lparr>portnum = PortNum_SIMULATOR_APP, payload = [0]\<rparr>\<rparr>)]\<rparr> \<and>
   queue (txQueue (radio_with [oversize_packet] None False)) = [oversize_packet] \<and>
   sendingPacket (radio_with [oversize_packet] None False) = None \<and>
   (\<exists>s'. onNotify 0 example_externals TRANSMIT_DELAY_COMPLETED
            (radio_with [oversize_packet] None False) = Returned s' \<and>
         phone_packets (trace s') =
           [oversize_packet\<lparr>decoded := \<lparr>portnum = PortNum_SIMULATOR_APP, payload = [0]\<rparr>\<rparr>] \<and>
         airtime_calls (trace s') = [(TX_LOG, 20)])"
proof -
  have big: "sizeof_Compressed_data_bytes example_externals
     < length (payload (decoded (perhapsDecode example_externals oversize_packet)))"
    by (simp add: example_defs)
  show ?thesis
    using big
      startSend_oversize_payload_sends_empty [OF big, where s = idle_radio]
      startSend_oversize_payload_sends_empty [OF big,
        where s = "radio_with [oversize_packet] None False" and ps = "[]" and k = 0]
    by (simp add: example_defs)
qed

section \<open>The dispatcher\<close>

text \<open>
  Claim C4 as stated fails where it says that no send begins during a reception: a radio
  whose receiving flag is set, with one packet waiting and none in flight, gets
  \<^verbatim>\<open>TRANSMIT_DELAY_COMPLETED\<close>: it sends the packet at once, the flag still set.
\<close>

theorem delay_expired_while_receiving_sends:
  "isReceiving receiving_radio \<and>
   queue (txQueue receiving_radio) = [local_packet 1] \<and>
   onNotify 0 example_externals TRANSMIT_DELAY_COMPLETED receiving_radio =
     Returned ((radio_with [] None True)
       \<lparr>txGood := 1,
        trace :=
          [PoolAllocCopy (local_packet 1),
           SendToPhone ((local_packet 1)\<lparr>decoded :=
             \<lparr>portnum = PortNum_SIMULATOR_APP, payload = [3, 1, 2, 3]\<rparr>\<rparr>),
           LogAirtime TX_LOG 20, Delay 20, PoolRelease (local_packet 1)]\<rparr>)"
  by (simp add: delay_expired_when_free [of _ "local_packet 1" "[]"] example_defs
      completeSending_def startSend_unfold collab_defs Let_def)

text \<open>
  Claim C4, as the code has it. A \<^verbatim>\<open>TRANSMIT_DELAY_COMPLETED\<close> arrives with packet \<open>p\<close> at
  the head of the queue. If \<^verbatim>\<open>canSendImmediately\<close> answers false or \<^verbatim>\<open>isChannelActive\<close>
  answers true, then however many times the timer expires, all that the dispatcher has
  done is, once per expiry, to log the warning and to wait a fresh delay computed from
  \<open>p\<close>: the radio differs from the one it found only in its count of draws and in these
  trace entries, so \<open>p\<close> is still at the head of the queue, nothing went to the phone, no
  airtime was logged, nothing was released, and the timer is pending again.
  \<^verbatim>\<open>canSendImmediately\<close> answers false exactly when a packet is in flight; the receiving
  flag has no part in it, since \<^verbatim>\<open>isActivelyReceiving\<close> always answers false. With no
  packet in flight the head is dequeued and sent, whatever the receiving flag says.
\<close>

theorem delay_expired_busy_rearms:
  assumes "getFront (txQueue s) = Some p"
  shows "(\<not> fst (canSendImmediately s) \<or> isChannelActive \<longrightarrow>
            (\<exists>rearms.
               onNotify k E TRANSMIT_DELAY_COMPLETED s =
                 Pending (s\<lparr>draws := draws s + Suc k, trace := trace s @ rearms\<rparr>) \<and>
               rearms =
                 concat (map (\<lambda>n. [LogWarn ''Can not send yet, busyTx'',
                                   Delay (if float_eq_zero (rx_snr p) \<and> rx_rssi p = 0
                                          then getTxDelayMsec E n
                                          else getTxDelayMsecWeighted E (rx_snr p) n)])
                             [draws s..<draws s + Suc k]) \<and>
               phone_packets rearms = [] \<and> airtime_calls rearms = [] \<and> released rearms = [])) \<and>
         (fst (canSendImmediately s) \<longleftrightarrow> sendingPacket s = None) \<and>
         (sendingPacket s = None \<longrightarrow>
            (\<exists>s'. onNotify k E TRANSMIT_DELAY_COMPLETED s = Returned s' \<and>
                  queue (txQueue s') = tl (queue (txQueue s)) \<and>
                  isReceiving s' = isReceiving s \<and>
                  airtime_calls (trace s') =
                    airtime_calls (trace s) @ [(TX_LOG, getPacketTime E p)] \<and>
                  length (phone_packets (trace s')) = Suc (length (phone_packets (trace s)))))"
proof -
  from assms obtain ps where q: "queue (txQueue s) = p # ps"
    by (auto simp: getFront_Some_iff)
  have busy: "\<exists>rearms.
               onNotify k E TRANSMIT_DELAY_COMPLETED s =
                 Pending (s\<lparr>draws := draws s + Suc k, trace := trace s @ rearms\<rparr>) \<and>
               rearms =
                 concat (map (\<lambda>n. [LogWarn ''Can not send yet, busyTx'',
                                   Delay (if float_eq_zero (rx_snr p) \<and> rx_rssi p = 0
                                          then getTxDelayMsec E n
                                          else getTxDelayMsecWeighted E (rx_snr p) n)])
                             [draws s..<draws s + Suc k]) \<and>
               phone_packets rearms = [] \<and> airtime_calls rearms = [] \<and> released rearms = []"
    if "sendingPacket s \<noteq> None"
  proof -
    let ?rearms = "concat (map (\<lambda>n. [LogWarn ''Can not send yet, busyTx'',
                                   Delay (if float_eq_zero (rx_snr p) \<and> rx_rssi p = 0
                                          then getTxDelayMsec E n
                                          else getTxDelayMsecWeighted E (rx_snr p) n)])
                             [draws s..<draws s + Suc k])"
    have pending: "onNotify k E TRANSMIT_DELAY_COMPLETED s =
        Pending (s\<lparr>draws := draws s + Suc k, trace := trace s @ ?rearms\<rparr>)"
      by (rule busy_radio_rearms [OF q that])
    have quiet: "phone_packets ?rearms = []" "airtime_calls ?rearms = []" "released ?rearms = []"
      by (rule rearm_events_send_nothing)+
    show ?thesis
      by (rule exI [of _ ?rearms]) (intro conjI pending quiet refl)
  qed
  have free: "\<exists>s'. onNotify k E TRANSMIT_DELAY_COMPLETED s = Returned s' \<and>
                  queue (txQueue s') = tl (queue (txQueue s)) \<and>
                  isReceiving s' = isReceiving s \<and>
                  airtime_calls (trace s') =
                    airtime_calls (trace s) @ [(TX_LOG, getPacketTime E p)] \<and>
                  length (phone_packets (trace s')) = Suc (length (phone_packets (trace s)))"
    if "sendingPacket s = None"
  proof -
    have "length (phone_packets (trace (startSend E p s0))) =
        Suc (length (phone_packets (trace s0)))" for s0
      by (simp add: startSend_unfold Let_def phone_packets_append)
    with that q show ?thesis
      by (simp add: delay_expired_when_free [OF q] transmitted_state)
  qed
  have can: "fst (canSendImmediately s) \<longleftrightarrow> sendingPacket s = None"
    by (simp add: canSendImmediately_eq)
  have never: "\<not> isChannelActive"
    by (simp add: isChannelActive_def)
  show ?thesis
  proof (cases "sendingPacket s = None")
    case True
    with free [OF True] can never show ?thesis by simp
  next
    case False
    with busy [OF False] can show ?thesis by simp
  qed
qed

theorem delay_expired_busy_rearms_witness:
  "getFront (txQueue busy_radio) = Some (relayed_packet 2) \<and>
   \<not> fst (canSendImmediately busy_radio) \<and>
   onNotify (Suc 0) example_externals TRANSMIT_DELAY_COMPLETED busy_radio =
     Pending (busy_radio\<lparr>draws := Suc (Suc 0),
                trace := [LogWarn ''Can not send yet, busyTx'', Delay 50,
                          LogWarn ''Can not send yet, busyTx'', Delay 50]\<rparr>) \<and>
   getFront (txQueue receiving_radio) = Some (local_packet 1) \<and>
   sendingPacket receiving_radio = None \<and>
   (\<exists>s'. onNotify 0 example_externals TRANSMIT_DELAY_COMPLETED receiving_radio = Returned s' \<and>
         queue (txQueue s') = [] \<and> isReceiving s' \<and>
         airtime_calls (trace s') = [(TX_LOG, 20)] \<and>
         length (phone_packets (trace s')) = Suc 0)"
proof -
  have front1: "getFront (txQueue busy_radio) = Some (relayed_packet 2)"
    by (simp add: getFront_def example_defs)
  have front2: "getFront (txQueue receiving_radio) = Some (local_packet 1)"
    by (simp add: getFront_def example_defs)
  have cannot: "\<not> fst (canSendImmediately busy_radio)"
    by (simp add: canSendImmediately_eq example_defs)
  have free: "sendingPacket receiving_radio = None"
    by (simp add: example_defs)
  have nonzero: "\<not> float_eq_zero (rx_snr (relayed_packet 2))"
    by (simp add: float_eq_zero_def example_defs)
  have facts: "draws busy_radio = 0" "trace busy_radio = []"
    "getTxDelayMsecWeighted example_externals (rx_snr (relayed_packet 2)) n = 50"
    "queue (txQueue receiving_radio) = [local_packet 1]" "isReceiving receiving_radio"
    "trace receiving_radio = []" "getPacketTime example_externals (local_packet 1) = 20" for n
    by (simp_all add: example_defs)
  have rounds: "[0..<Suc (Suc 0)] = [0, Suc 0]"
    by (simp add: upt_conv_Cons)
  have rearmed: "onNotify (Suc 0) example_externals TRANSMIT_DELAY_COMPLETED busy_radio =
     Pending (busy_radio\<lparr>draws := Suc (Suc 0),
                trace := [LogWarn ''Can not send yet, busyTx'', Delay 50,
                          LogWarn ''Can not send yet, busyTx'', Delay 50]\<rparr>)"
    using delay_expired_busy_rearms [OF front1, where k = "Suc 0" and E = example_externals,
        THEN conjunct1, THEN mp, OF disjI1 [OF cannot]]
    by (auto simp: facts nonzero rounds)
  have sent: "\<exists>s'. onNotify 0 example_externals TRANSMIT_DELAY_COMPLETED receiving_radio = Returned s' \<and>
         queue (txQueue s') = [] \<and> isReceiving s' \<and>
         airtime_calls (trace s') = [(TX_LOG, 20)] \<and>
         length (phone_packets (trace s')) = Suc 0"
    using delay_expired_busy_rearms [OF front2, where k = 0 and E = example_externals,
        THEN conjunct2, THEN conjunct2, THEN mp, OF free]
    by (simp add: facts)
  show ?thesis
    using front1 front2 cannot free rearmed sent by simp
qed

text \<open>
  Claim C5: a radio with an empty queue of non-zero capacity and nothing in flight is
  given a packet with \<^verbatim>\<open>rx_snr == 0\<close> and \<^verbatim>\<open>rx_rssi == 0\<close>. \<^verbatim>\<open>send\<close> waits out the delay and
  delivers the one \<^verbatim>\<open>TRANSMIT_DELAY_COMPLETED\<close> itself; one delivery is enough for it to
  return \<^verbatim>\<open>ERRNO_OK\<close>. By then \<^verbatim>\<open>logAirtime\<close> was called exactly once, for the transmit
  side with the packet's airtime; exactly one packet was released, the submitted one; the
  queue is empty and nothing is in flight.
\<close>

theorem submit_then_delay_expired_transmits_once:
  assumes "queue (txQueue s) = []" and "0 < maxLen (txQueue s)" and "sendingPacket s = None"
    and "float_eq_zero (rx_snr p)" and "rx_rssi p = 0"
  shows "\<exists>s'. send (Suc k) E p s = Returned (ERRNO_OK, s') \<and>
              queue_empty (txQueue s') \<and> sendingPacket s' = None \<and>
              airtime_calls (trace s') = airtime_calls (trace s) @ [(TX_LOG, getPacketTime E p)] \<and>
              released (trace s') = released (trace s) @ [p] \<and>
              txGood s' = txGood s + 1"
  using assms
  by (simp add: send_def enqueue_def setTransmitDelay_Suc [of _ p "[]"]
      delay_expired_when_free [of _ p "[]"] transmitted_state queue_empty_def
      airtime_calls_append released_append)

theorem submit_then_delay_expired_transmits_once_witness:
  "queue (txQueue idle_radio) = [] \<and> 0 < maxLen (txQueue idle_radio) \<and>
   sendingPacket idle_radio = None \<and>
   float_eq_zero (rx_snr (local_packet 1)) \<and> rx_rssi (local_packet 1) = 0 \<and>
   (\<exists>s'. send (Suc 0) example_externals (local_packet 1) idle_radio = Returned (ERRNO_OK, s') \<and>
         queue_empty (txQueue s') \<and> sendingPacket s' = None \<and>
         airtime_calls (trace s') = [(TX_LOG, 20)] \<and>
         released (trace s') = [local_packet 1] \<and>
         txGood s' = 1)"
proof -
  have pre: "queue (txQueue idle_radio) = []" "0 < maxLen (txQueue idle_radio)"
    "sendingPacket idle_radio = None"
    by (simp_all add: example_defs)
  have loc: "float_eq_zero (rx_snr (local_packet 1))" "rx_rssi (local_packet 1) = 0"
    by (simp_all add: float_eq_zero_def example_defs)
  have facts: "trace idle_radio = []" "txGood idle_radio = 0"
    "getPacketTime example_externals (local_packet 1) = 20"
    by (simp_all add: example_defs)
  show ?thesis
    using pre loc
      submit_then_delay_expired_transmits_once [OF pre loc, of 0 example_externals]
    by (simp add: facts)
qed

text \<open>
  Claim C8: a notification that is none of \<^verbatim>\<open>ISR_TX\<close>, \<^verbatim>\<open>ISR_RX\<close> and
  \<^verbatim>\<open>TRANSMIT_DELAY_COMPLETED\<close> fails the assertion of the dispatcher's default branch,
  and \<^verbatim>\<open>handleReceiveInterrupt\<close> on a radio whose receiving flag is not set fails its
  assertion.
\<close>

theorem unknown_notification_or_receive_completion_asserts:
  "(n \<noteq> ISR_TX \<and> n \<noteq> ISR_RX \<and> n \<noteq> TRANSMIT_DELAY_COMPLETED \<longrightarrow>
      onNotify k E n s = Fatal AssertionFailed) \<and>
   (\<not> isReceiving s \<longrightarrow> handleReceiveInterrupt E p s = Inl AssertionFailed)"
  by (simp add: onNotify.simps handleReceiveInterrupt_def)

theorem unknown_notification_or_receive_completion_asserts_witness:
  "ISR_NONE \<noteq> ISR_TX \<and> ISR_NONE \<noteq> ISR_RX \<and> ISR_NONE \<noteq> TRANSMIT_DELAY_COMPLETED \<and>
   onNotify 0 example_externals ISR_NONE idle_radio = Fatal AssertionFailed \<and>
   \<not> isReceiving idle_radio \<and>
   handleReceiveInterrupt example_externals (local_packet 1) idle_radio = Inl AssertionFailed"
proof -
  have other: "ISR_NONE \<noteq> ISR_TX \<and> ISR_NONE \<noteq> ISR_RX \<and> ISR_NONE \<noteq> TRANSMIT_DELAY_COMPLETED"
    by (simp add: notification_defs)
  have flag: "\<not> isReceiving idle_radio"
    by (simp add: example_defs)
  show ?thesis
    using other flag
      unknown_notification_or_receive_completion_asserts
        [of ISR_NONE 0 example_externals idle_radio "local_packet 1"]
    by simp
qed

text \<open>
  Claim C10 as stated fails in two ways. With no packet in flight and one packet waiting,
  \<^verbatim>\<open>ISR_TX\<close> does end in a release and a count: the timer it arms delivers
  \<^verbatim>\<open>TRANSMIT_DELAY_COMPLETED\<close> itself, which sends the waiting packet, whichever value the
  default argument has. And with no packet waiting it arms no timer at all.
\<close>

theorem tx_complete_with_packet_waiting_sends_it:
  "sendingPacket (radio_with [local_packet 1] None False) = None \<and>
   onNotify (Suc 0) example_externals ISR_TX (radio_with [local_packet 1] None False) =
     Returned ((radio_with [] None False)
       \<lparr>txGood := 1, draws := Suc 0,
        trace :=
          [Delay 100, PoolAllocCopy (local_packet 1),
           SendToPhone ((local_packet 1)\<lparr>decoded :=
             \<lparr>portnum = PortNum_SIMULATOR_APP, payload = [3, 1, 2, 3]\<rparr>\<rparr>),
           LogAirtime TX_LOG 20, Delay 20, PoolRelease (local_packet 1)]\<rparr>) \<and>
   onNotify (Suc 0) (example_externals\<lparr>startTransmitTimer_default := False\<rparr>) ISR_TX
       (radio_with [local_packet 1] None False) =
     Returned ((radio_with [] None False)
       \<lparr>txGood := 1,
        trace :=
          [Delay 1, PoolAllocCopy (local_packet 1),
           SendToPhone ((local_packet 1)\<lparr>decoded :=
             \<lparr>portnum = PortNum_SIMULATOR_APP, payload = [3, 1, 2, 3]\<rparr>\<rparr>),
           LogAirtime TX_LOG 20, Delay 20, PoolRelease (local_packet 1)]\<rparr>) \<and>
   sendingPacket idle_radio = None \<and>
   onNotify (Suc 0) example_externals ISR_TX idle_radio = Returned idle_radio"
  by (simp add: onNotify.simps [of _ _ ISR_TX] handleTransmitInterrupt_def queue_empty_def
      startTransmitTimer.simps delay_expired_when_free [of _ "local_packet 1" "[]"] example_defs
      completeSending_def startSend_unfold collab_defs Let_def)

text \<open>
  Claim C10, as the code has it. With no packet in flight, \<^verbatim>\<open>handleTransmitInterrupt\<close>
  leaves the radio as it is (no release, no count), and the dispatcher goes on to
  \<^verbatim>\<open>startTransmitTimer()\<close>. With no packet waiting that arms nothing and \<^verbatim>\<open>ISR_TX\<close> returns
  the radio unchanged. With a packet waiting it waits \<^verbatim>\<open>getTxDelayMsec()\<close>, or 1 ms as the
  default argument says, and up to the end of that wait nothing else has happened; it
  then delivers \<^verbatim>\<open>TRANSMIT_DELAY_COMPLETED\<close> itself, and that delivery sends the head of
  the queue, releases it and counts it. \<^verbatim>\<open>completeSending\<close> leaves no packet in flight,
  releases the packet that was in flight, if any, once, counts it once, and changes
  nothing when it is run a second time.
\<close>

theorem tx_complete_without_packet:
  "(sendingPacket s = None \<longrightarrow>
      handleTransmitInterrupt s = s \<and>
      onNotify k E ISR_TX s = startTransmitTimer k E (startTransmitTimer_default E) s \<and>
      (queue (txQueue s) = [] \<longrightarrow> onNotify k E ISR_TX s = Returned s) \<and>
      (queue (txQueue s) \<noteq> [] \<longrightarrow>
         onNotify 0 E ISR_TX s =
           Pending (if startTransmitTimer_default E
                    then s\<lparr>draws := Suc (draws s),
                           trace := trace s @ [Delay (getTxDelayMsec E (draws s))]\<rparr>
                    else s\<lparr>trace := trace s @ [Delay 1]\<rparr>) \<and>
         onNotify (Suc k) E ISR_TX s =
           onNotify k E TRANSMIT_DELAY_COMPLETED
             (if startTransmitTimer_default E
              then s\<lparr>draws := Suc (draws s),
                     trace := trace s @ [Delay (getTxDelayMsec E (draws s))]\<rparr>
              else s\<lparr>trace := trace s @ [Delay 1]\<rparr>) \<and>
         (\<exists>s'. onNotify (Suc k) E ISR_TX s = Returned s' \<and>
               queue (txQueue s') = tl (queue (txQueue s)) \<and>
               sendingPacket s' = None \<and>
               released (trace s') = released (trace s) @ [hd (queue (txQueue s))] \<and>
               txGood s' = txGood s + 1))) \<and>
   sendingPacket (completeSending s) = None \<and>
   released (trace (completeSending s)) =
     released (trace s) @ (case sendingPacket s of None \<Rightarrow> [] | Some p \<Rightarrow> [p]) \<and>
   txGood (completeSending s) =
     (case sendingPacket s of None \<Rightarrow> txGood s | Some p \<Rightarrow> txGood s + 1) \<and>
   completeSending (completeSending s) = completeSending s"
proof -
  have completion: "sendingPacket (completeSending s) = None \<and>
      released (trace (completeSending s)) =
        released (trace s) @ (case sendingPacket s of None \<Rightarrow> [] | Some p \<Rightarrow> [p]) \<and>
      txGood (completeSending s) =
        (case sendingPacket s of None \<Rightarrow> txGood s | Some p \<Rightarrow> txGood s + 1) \<and>
      completeSending (completeSending s) = completeSending s"
    by (simp add: completeSending_def release_def emit_def released_append Let_def
        split: option.splits)
  have noop: "handleTransmitInterrupt s = s" if "sendingPacket s = None"
    using that by (simp add: handleTransmitInterrupt_def)
  have tx: "onNotify k E ISR_TX s = startTransmitTimer k E (startTransmitTimer_default E) s"
    if "sendingPacket s = None" for k
    using that by (simp add: onNotify.simps noop)
  have unarmed: "onNotify k E ISR_TX s = Returned s"
    if "sendingPacket s = None" "queue (txQueue s) = []"
    using that by (cases k) (simp_all add: tx startTransmitTimer.simps queue_empty_def)
  have sends: "\<exists>s'. onNotify (Suc k) E ISR_TX s = Returned s' \<and>
               queue (txQueue s') = tl (queue (txQueue s)) \<and>
               sendingPacket s' = None \<and>
               released (trace s') = released (trace s) @ [hd (queue (txQueue s))] \<and>
               txGood s' = txGood s + 1"
    if free: "sendingPacket s = None" and waiting: "queue (txQueue s) \<noteq> []"
  proof -
    from waiting obtain p ps where q: "queue (txQueue s) = p # ps"
      by (cases "queue (txQueue s)") auto
    show ?thesis
      using free q
      by (simp add: tx [OF free] startTransmitTimer_Suc [OF waiting]
          delay_expired_when_free [of _ p ps] transmitted_state released_append)
  qed
  have armed: "onNotify 0 E ISR_TX s =
           Pending (if startTransmitTimer_default E
                    then s\<lparr>draws := Suc (draws s),
                           trace := trace s @ [Delay (getTxDelayMsec E (draws s))]\<rparr>
                    else s\<lparr>trace := trace s @ [Delay 1]\<rparr>)"
    if "sendingPacket s = None" "queue (txQueue s) \<noteq> []"
    using that by (simp add: tx startTransmitTimer_0)
  have fired: "onNotify (Suc k) E ISR_TX s =
           onNotify k E TRANSMIT_DELAY_COMPLETED
             (if startTransmitTimer_default E
              then s\<lparr>draws := Suc (draws s),
                     trace := trace s @ [Delay (getTxDelayMsec E (draws s))]\<rparr>
              else s\<lparr>trace := trace s @ [Delay 1]\<rparr>)"
    if "sendingPacket s = None" "queue (txQueue s) \<noteq> []"
    using that by (simp add: tx startTransmitTimer_Suc)
  show ?thesis
  proof (cases "sendingPacket s = None")
    case False
    from completion show ?thesis by (simp add: False)
  next
    case free: True
    have first: "handleTransmitInterrupt s = s \<and>
      onNotify k E ISR_TX s = startTransmitTimer k E (startTransmitTimer_default E) s \<and>
      (queue (txQueue s) = [] \<longrightarrow> onNotify k E ISR_TX s = Returned s) \<and>
      (queue (txQueue s) \<noteq> [] \<longrightarrow>
         onNotify 0 E ISR_TX s =
           Pending (if startTransmitTimer_default E
                    then s\<lparr>draws := Suc (draws s),
                           trace := trace s @ [Delay (getTxDelayMsec E (draws s))]\<rparr>
                    else s\<lparr>trace := trace s @ [Delay 1]\<rparr>) \<and>
         onNotify (Suc k) E ISR_TX s =
           onNotify k E TRANSMIT_DELAY_COMPLETED
             (if startTransmitTimer_default E
              then s\<lparr>draws := Suc (draws s),
                     trace := trace s @ [Delay (getTxDelayMsec E (draws s))]\<rparr>
              else s\<lparr>trace := trace s @ [Delay 1]\<rparr>) \<and>
         (\<exists>s'. onNotify (Suc k) E ISR_TX s = Returned s' \<and>
               queue (txQueue s') = tl (queue (txQueue s)) \<and>
               sendingPacket s' = None \<and>
               released (trace s') = released (trace s) @ [hd (queue (txQueue s))] \<and>
               txGood s' = txGood s + 1))"
    proof (intro conjI impI)
      show "handleTransmitInterrupt s = s"
        by (rule noop [OF free])
      show "onNotify k E ISR_TX s = startTransmitTimer k E (startTransmitTimer_default E) s"
        by (rule tx [OF free])
    next
      assume "queue (txQueue s) = []"
      then show "onNotify k E ISR_TX s = Returned s"
        by (rule unarmed [OF free])
    next
      assume waiting: "queue (txQueue s) \<noteq> []"
      show "onNotify 0 E ISR_TX s =
           Pending (if startTransmitTimer_default E
                    then s\<lparr>draws := Suc (draws s),
                           trace := trace s @ [Delay (getTxDelayMsec E (draws s))]\<rparr>
                    else s\<lparr>trace := trace s @ [Delay 1]\<rparr>)"
        by (rule armed [OF free waiting])
      show "onNotify (Suc k) E ISR_TX s =
           onNotify k E TRANSMIT_DELAY_COMPLETED
             (if startTransmitTimer_default E
              then s\<lparr>draws := Suc (draws s),
                     trace := trace s @ [Delay (getTxDelayMsec E (draws s))]\<rparr>
              else s\<lparr>trace := trace s @ [Delay 1]\<rparr>)"
        by (rule fired [OF free waiting])
      show "\<exists>s'. onNotify (Suc k) E ISR_TX s = Returned s' \<and>
               queue (txQueue s') = tl (queue (txQueue s)) \<and>
               sendingPacket s' = None \<and>
               released (trace s') = released (trace s) @ [hd (queue (txQueue s))] \<and>
               txGood s' = txGood s + 1"
        by (rule sends [OF free waiting])
    qed
    show ?thesis
      by (rule conjI, rule impI, rule first, rule completion)
  qed
qed

theorem tx_complete_without_packet_witness:
  "sendingPacket idle_radio = None \<and> queue (txQueue idle_radio) = [] \<and>
   handleTransmitInterrupt idle_radio = idle_radio \<and>
   onNotify (Suc 0) example_externals ISR_TX idle_radio = Returned idle_radio \<and>
   sendingPacket (radio_with [local_packet 1] None False) = None \<and>
   queue (txQueue (radio_with [local_packet 1] None False)) \<noteq> [] \<and>
   onNotify 0 example_externals ISR_TX (radio_with [local_packet 1] None False) =
     Pending ((radio_with [local_packet 1] None False)\<lparr>draws := Suc 0, trace := [Delay 100]\<rparr>) \<and>
   (\<exists>s'. onNotify (Suc 0) example_externals ISR_TX (radio_with [local_packet 1] None False) =
           Returned s' \<and>
         queue (txQueue s') = [] \<and> sendingPacket s' = None \<and>
         released (trace s') = [local_packet 1] \<and> txGood s' = 1) \<and>
   released (trace (completeSending busy_radio)) = [local_packet 1] \<and>
   released (trace (completeSending (completeSending busy_radio))) = [local_packet 1]"
proof -
  let ?r = "radio_with [local_packet 1] None False"
  have none: "sendingPacket idle_radio = None" "queue (txQueue idle_radio) = []"
    by (simp_all add: example_defs)
  have waiting: "sendingPacket ?r = None" "queue (txQueue ?r) \<noteq> []"
    by (simp_all add: example_defs)
  have some: "sendingPacket busy_radio = Some (local_packet 1)" "trace busy_radio = []"
    by (simp_all add: example_defs)
  have facts: "startTransmitTimer_default example_externals"
    "getTxDelayMsec example_externals 0 = 100" "draws ?r = 0" "trace ?r = []"
    "queue (txQueue ?r) = [local_packet 1]" "txGood ?r = 0"
    by (simp_all add: example_defs)
  note idle = tx_complete_without_packet [of idle_radio "Suc 0" example_externals,
      THEN conjunct1, THEN mp, OF none(1)]
  note busy = tx_complete_without_packet [of ?r 0 example_externals,
      THEN conjunct1, THEN mp, OF waiting(1)]
  note completed = tx_complete_without_packet [of busy_radio 0 example_externals,
      THEN conjunct2]
  have a: "handleTransmitInterrupt idle_radio = idle_radio"
    by (rule idle [THEN conjunct1])
  have b: "onNotify (Suc 0) example_externals ISR_TX idle_radio = Returned idle_radio"
    by (rule idle [THEN conjunct2, THEN conjunct2, THEN conjunct1, THEN mp, OF none(2)])
  note waits = busy [THEN conjunct2, THEN conjunct2, THEN conjunct2, THEN mp, OF waiting(2)]
  have c: "onNotify 0 example_externals ISR_TX ?r = Pending (?r\<lparr>draws := Suc 0, trace := [Delay 100]\<rparr>)"
    using waits [THEN conjunct1] by (simp add: facts)
  have d: "\<exists>s'. onNotify (Suc 0) example_externals ISR_TX ?r = Returned s' \<and>
         queue (txQueue s') = [] \<and> sendingPacket s' = None \<and>
         released (trace s') = [local_packet 1] \<and> txGood s' = 1"
    using waits [THEN conjunct2, THEN conjunct2] by (simp add: facts)
  have e: "released (trace (completeSending busy_radio)) = [local_packet 1]"
    "released (trace (completeSending (completeSending busy_radio))) = [local_packet 1]"
    using completed by (simp_all add: some)
  show ?thesis
    using none waiting a b c d e by simp
qed

section \<open>Cancelling\<close>

text \<open>
  Claim C7: \<^verbatim>\<open>cancelSending\<close> never touches the packet in flight. It answers true exactly
  when a packet with the given origin and id waits in the queue; it then takes the first
  such packet out of the queue, leaving the others in their order, and releases it to the
  pool, and does nothing else. When it answers false the radio is unchanged.
\<close>

theorem cancelSending_removes_one_waiting:
  assumes "cancelSending n i s = (r, s')"
  shows "sendingPacket s' = sendingPacket s \<and>
         (r \<longleftrightarrow> (\<exists>p\<in>set (queue (txQueue s)). pkt_from p = n \<and> pkt_id p = i)) \<and>
         (\<not> r \<longrightarrow> s' = s) \<and>
         (r \<longrightarrow> (\<exists>xs p ys. queue (txQueue s) = xs @ p # ys \<and>
                   pkt_from p = n \<and> pkt_id p = i \<and>
                   (\<forall>x\<in>set xs. \<not> (pkt_from x = n \<and> pkt_id x = i)) \<and>
                   s' = release p (s\<lparr>txQueue := (txQueue s)\<lparr>queue := xs @ ys\<rparr>\<rparr>)))"
proof (cases "remove_first n i (queue (txQueue s))")
  case (Pair found rest)
  show ?thesis
  proof (cases found)
    case None
    with Pair remove_first_None [of n i "queue (txQueue s)" rest]
    have "rest = queue (txQueue s)"
      and "\<forall>p\<in>set (queue (txQueue s)). \<not> (pkt_from p = n \<and> pkt_id p = i)"
      by simp_all
    with assms Pair None show ?thesis
      by (auto simp: cancelSending_def queue_remove_def)
  next
    case (Some p)
    with Pair remove_first_Some [of n i "queue (txQueue s)" p rest]
    obtain xs ys where split: "queue (txQueue s) = xs @ p # ys" "rest = xs @ ys"
      "pkt_from p = n" "pkt_id p = i" "\<forall>x\<in>set xs. \<not> (pkt_from x = n \<and> pkt_id x = i)"
      by auto
    from assms Pair Some have r: "r"
      and s': "s' = release p (s\<lparr>txQueue := (txQueue s)\<lparr>queue := rest\<rparr>\<rparr>)"
      by (auto simp: cancelSending_def queue_remove_def)
    have "sendingPacket s' = sendingPacket s"
      by (simp add: s' release_def emit_def)
    moreover have "\<exists>p\<in>set (queue (txQueue s)). pkt_from p = n \<and> pkt_id p = i"
      using split by auto
    moreover have "\<exists>xs p ys. queue (txQueue s) = xs @ p # ys \<and>
                   pkt_from p = n \<and> pkt_id p = i \<and>
                   (\<forall>x\<in>set xs. \<not> (pkt_from x = n \<and> pkt_id x = i)) \<and>
                   s' = release p (s\<lparr>txQueue := (txQueue s)\<lparr>queue := xs @ ys\<rparr>\<rparr>)"
      using split s' by blast
    ultimately show ?thesis using r by simp
  qed
qed

theorem cancelSending_removes_one_waiting_witness:
  "cancelSending 7 2 full_radio =
     (True, (radio_with [local_packet 1, local_packet 3, local_packet 4] None False)
              \<lparr>trace := [PoolRelease (local_packet 2)]\<rparr>) \<and>
   sendingPacket ((radio_with [local_packet 1, local_packet 3, local_packet 4] None False)
              \<lparr>trace := [PoolRelease (local_packet 2)]\<rparr>) = sendingPacket full_radio \<and>
   cancelSending 7 1 busy_radio = (False, busy_radio) \<and>
   sendingPacket busy_radio = Some (local_packet 1) \<and>
   pkt_from (local_packet 1) = 7 \<and> pkt_id (local_packet 1) = 1"
proof -
  have found: "cancelSending 7 2 full_radio =
     (True, (radio_with [local_packet 1, local_packet 3, local_packet 4] None False)
              \<lparr>trace := [PoolRelease (local_packet 2)]\<rparr>)"
    by (simp add: cancelSending_def queue_remove_def release_def emit_def example_defs)
  have missed: "cancelSending 7 1 busy_radio = (False, busy_radio)"
    by (simp add: cancelSending_def queue_remove_def example_defs)
  have flight: "sendingPacket busy_radio = Some (local_packet 1) \<and>
      pkt_from (local_packet 1) = 7 \<and> pkt_id (local_packet 1) = 1"
    by (simp add: example_defs)
  show ?thesis
    using found missed flight
      cancelSending_removes_one_waiting [OF found, THEN conjunct1]
      cancelSending_removes_one_waiting [OF missed, THEN conjunct1]
    by simp
qed

end
